theory Spec2Isabelle
  imports Complex_Main
begin

section \<open>Data model\<close>

text \<open>
  The dashboard works on pandas data frames with the columns \<^verbatim>\<open>noted_date\<close>,
  \<^verbatim>\<open>temp\<close> and \<^verbatim>\<open>out/in\<close>. A numeric cell is either a number or the missing value
  NaN. Temperatures are floats in the program; the model computes with exact rationals,
  so it says nothing about rounding. A timestamp is the number of nanoseconds since the
  epoch, as in a pandas \<^verbatim>\<open>Timestamp\<close>; the missing timestamp NaT is not modelled.
\<close>

datatype cell = NaN | Num rat

text \<open>A cell of a frame as \<^verbatim>\<open>pd.read_csv\<close> delivers it, before any coercion.\<close>

datatype raw = RStr string | RNum rat | RNaN

datatype error = KeyError string

record raw_reading =
  raw_noted_date :: raw
  raw_temp :: raw
  raw_out_in :: raw

record reading =
  noted_date :: int
  temp :: cell
  out_in :: string

text \<open>
  A frame lists the names of the columns it has, and its rows. A field of a row whose
  column is not among \<open>columns\<close> is a placeholder: the code reads a column only after
  the look-up of its name succeeded, and the model raises \<open>KeyError\<close> where the look-up
  fails.
\<close>

record 'r frame =
  columns :: "string list"
  rows :: "'r list"

text \<open>The value of a dictionary entry of the statistics summary.\<close>

datatype pyval = PyInt int | PyFloat cell | PyNone

type_synonym stats = "string \<rightharpoonup> pyval"

section \<open>pandas primitives\<close>

text \<open>\<^verbatim>\<open>df.empty\<close>: one of the two axes has length 0.\<close>

definition df_empty :: "'r frame \<Rightarrow> bool" where
  "df_empty df \<longleftrightarrow> columns df = [] \<or> rows df = []"

text \<open>The reductions of a numeric series skip missing values (\<^verbatim>\<open>skipna=True\<close>).\<close>

fun dropna :: "cell list \<Rightarrow> rat list" where
  "dropna [] = []"
| "dropna (NaN # cs) = dropna cs"
| "dropna (Num v # cs) = v # dropna cs"

definition series_mean :: "cell list \<Rightarrow> cell" where
  "series_mean cs =
     (case dropna cs of [] \<Rightarrow> NaN
      | v # vs \<Rightarrow> Num (sum_list (v # vs) / of_nat (length (v # vs))))"

definition series_min :: "cell list \<Rightarrow> cell" where
  "series_min cs = (case dropna cs of [] \<Rightarrow> NaN | v # vs \<Rightarrow> Num (fold min vs v))"

definition series_max :: "cell list \<Rightarrow> cell" where
  "series_max cs = (case dropna cs of [] \<Rightarrow> NaN | v # vs \<Rightarrow> Num (fold max vs v))"

text \<open>\<^verbatim>\<open>df[df['out/in'] == v]\<close> on the rows of a frame that has the column.\<close>

definition loc_rows :: "string \<Rightarrow> reading list \<Rightarrow> reading list" where
  "loc_rows v rs = filter (\<lambda>r. out_in r = v) rs"

section \<open>calculate_statistics\<close>

definition overall_stats :: "reading list \<Rightarrow> stats" where
  "overall_stats rs =
     [''total_records'' \<mapsto> PyInt (int (length rs)),
      ''avg_temp'' \<mapsto> PyFloat (series_mean (map temp rs)),
      ''min_temp'' \<mapsto> PyFloat (series_min (map temp rs)),
      ''max_temp'' \<mapsto> PyFloat (series_max (map temp rs))]"

text \<open>\<^verbatim>\<open>f(part['temp']) if not part.empty else None\<close>\<close>

definition part_stat :: "(cell list \<Rightarrow> cell) \<Rightarrow> reading list \<Rightarrow> pyval" where
  "part_stat f part = (if part \<noteq> [] then PyFloat (f (map temp part)) else PyNone)"

definition location_stats :: "reading list \<Rightarrow> stats \<Rightarrow> stats" where
  "location_stats rs st =
     (let indoor_data = loc_rows ''In'' rs;
          outdoor_data = loc_rows ''Out'' rs
      in st(''indoor_records'' \<mapsto> PyInt (int (length indoor_data)),
            ''outdoor_records'' \<mapsto> PyInt (int (length outdoor_data)),
            ''avg_indoor_temp'' \<mapsto> part_stat series_mean indoor_data,
            ''avg_outdoor_temp'' \<mapsto> part_stat series_mean outdoor_data,
            ''min_indoor_temp'' \<mapsto> part_stat series_min indoor_data,
            ''min_outdoor_temp'' \<mapsto> part_stat series_min outdoor_data,
            ''max_indoor_temp'' \<mapsto> part_stat series_max indoor_data,
            ''max_outdoor_temp'' \<mapsto> part_stat series_max outdoor_data))"

text \<open>
  The argument is \<open>None\<close> for Python's \<^verbatim>\<open>None\<close>. Reading \<^verbatim>\<open>df['temp']\<close> of a frame
  without that column raises \<^verbatim>\<open>KeyError\<close>.
\<close>

definition calculate_statistics :: "reading frame option \<Rightarrow> error + stats option" where
  "calculate_statistics d =
     (case d of
        None \<Rightarrow> Inr None
      | Some df \<Rightarrow>
          if df_empty df then Inr None
          else if ''temp'' \<notin> set (columns df) then Inl (KeyError ''temp'')
          else if ''out/in'' \<in> set (columns df)
            then Inr (Some (location_stats (rows df) (overall_stats (rows df))))
            else Inr (Some (overall_stats (rows df))))"

section \<open>process_data\<close>

text \<open>
  What the program takes from the pandas library and this development does not define:
  the two timestamp parsers of \<^verbatim>\<open>pd.to_datetime\<close> (with the format
  \<^verbatim>\<open>'%d-%m-%Y %H:%M'\<close>, and without a format), which strings
  \<^verbatim>\<open>pd.to_numeric\<close> reads as a number, and how \<^verbatim>\<open>astype(str)\<close> prints a number.
  A parser returns \<open>None\<close> on a cell that makes the library raise.
\<close>

record pandas =
  to_datetime_format :: "raw \<Rightarrow> int option"
  to_datetime :: "raw \<Rightarrow> int option"
  str_to_number :: "string \<Rightarrow> rat option"
  number_to_str :: "rat \<Rightarrow> string"

text \<open>
  \<^verbatim>\<open>pd.to_datetime\<close> on a column, with the default \<^verbatim>\<open>errors='raise'\<close>: the first cell
  that cannot be parsed raises, and no column is produced.
\<close>

fun parse_column :: "('a \<Rightarrow> 'b option) \<Rightarrow> 'a list \<Rightarrow> 'b list option" where
  "parse_column p [] = Some []"
| "parse_column p (c # cs) =
     (case p c of
        None \<Rightarrow> None
      | Some t \<Rightarrow> (case parse_column p cs of None \<Rightarrow> None | Some ts \<Rightarrow> Some (t # ts)))"

text \<open>\<^verbatim>\<open>pd.to_numeric(..., errors='coerce')\<close> on one cell.\<close>

fun to_numeric_coerce :: "pandas \<Rightarrow> raw \<Rightarrow> cell" where
  "to_numeric_coerce lib (RNum v) = Num v"
| "to_numeric_coerce lib RNaN = NaN"
| "to_numeric_coerce lib (RStr s) =
     (case str_to_number lib s of None \<Rightarrow> NaN | Some v \<Rightarrow> Num v)"

text \<open>\<^verbatim>\<open>astype(str)\<close> on one cell.\<close>

fun astype_str :: "pandas \<Rightarrow> raw \<Rightarrow> string" where
  "astype_str lib (RStr s) = s"
| "astype_str lib (RNum v) = number_to_str lib v"
| "astype_str lib RNaN = ''nan''"

text \<open>
  The two nested \<^verbatim>\<open>try\<close> blocks: the strict format first, the general parser when the
  strict one raised, \<open>None\<close> when both raised. A frame without the column
  \<^verbatim>\<open>noted_date\<close> raises \<^verbatim>\<open>KeyError\<close> in both blocks.
\<close>

definition convert_dates :: "pandas \<Rightarrow> raw_reading frame \<Rightarrow> int list option" where
  "convert_dates lib df =
     (if ''noted_date'' \<notin> set (columns df) then None
      else case parse_column (to_datetime_format lib) (map raw_noted_date (rows df)) of
             Some ts \<Rightarrow> Some ts
           | None \<Rightarrow> parse_column (to_datetime lib) (map raw_noted_date (rows df)))"

definition process_row :: "pandas \<Rightarrow> string list \<Rightarrow> raw_reading \<Rightarrow> int \<Rightarrow> reading" where
  "process_row lib cols r t =
     \<lparr>noted_date = t,
      temp = (if ''temp'' \<in> set cols then to_numeric_coerce lib (raw_temp r) else NaN),
      out_in = (if ''out/in'' \<in> set cols then astype_str lib (raw_out_in r) else [])\<rparr>"

definition process_data :: "pandas \<Rightarrow> raw_reading frame \<Rightarrow> reading frame option" where
  "process_data lib df =
     (case convert_dates lib df of
        None \<Rightarrow> None
      | Some ts \<Rightarrow>
          Some \<lparr>columns = columns df,
                rows = map2 (process_row lib (columns df)) (rows df) ts\<rparr>)"

section \<open>The filtered view\<close>

text \<open>
  The widgets deliver the location filter (one of \<^verbatim>\<open>"All"\<close>, \<^verbatim>\<open>"Indoor Only"\<close>,
  \<^verbatim>\<open>"Outdoor Only"\<close>), the date range (a tuple of up to two calendar dates, here days
  since the epoch) and the key of the resampling option.
\<close>

datatype freq = H | D

definition ns_per_hour :: int where
  "ns_per_hour = 3600000000000"

definition ns_per_day :: int where
  "ns_per_day = 86400000000000"

fun freq_ns :: "freq \<Rightarrow> int" where
  "freq_ns H = ns_per_hour"
| "freq_ns D = ns_per_day"

definition resample_options :: "string \<rightharpoonup> freq option" where
  "resample_options =
     [''None'' \<mapsto> None, ''Hourly Average'' \<mapsto> Some H, ''Daily Average'' \<mapsto> Some D]"

text \<open>\<^verbatim>\<open>pd.Timestamp(d)\<close> of a calendar date is its midnight; \<^verbatim>\<open>.date()\<close> is the day.\<close>

definition Timestamp :: "int \<Rightarrow> int" where
  "Timestamp d = d * ns_per_day"

definition date :: "int \<Rightarrow> int" where
  "date t = t div ns_per_day"

text \<open>
  The default value of the date widget, \<^verbatim>\<open>(min_date, max_date)\<close>. The view is rendered
  for a frame that is not empty only.
\<close>

definition default_date_range :: "reading list \<Rightarrow> int list option" where
  "default_date_range rs =
     (case map noted_date rs of
        [] \<Rightarrow> None
      | t # ts \<Rightarrow> Some [date (fold min ts t), date (fold max ts t)])"

text \<open>Python's \<^verbatim>\<open>s.replace(old, new)\<close>.\<close>

function str_replace :: "string \<Rightarrow> string \<Rightarrow> string \<Rightarrow> string" where
  "str_replace old new s =
     (if old = [] then new @ concat (map (\<lambda>c. c # new) s)
      else if s = [] then []
      else if take (length old) s = old
        then new @ str_replace old new (drop (length old) s)
      else hd s # str_replace old new (tl s))"
  by pat_completeness auto
termination
  by (relation "measure (\<lambda>(old, new, s). length s)") auto

declare str_replace.simps [simp del]

text \<open>\<^verbatim>\<open>df[df['out/in'] == v]\<close>\<close>

definition select_loc :: "string \<Rightarrow> reading frame \<Rightarrow> error + reading frame" where
  "select_loc v df =
     (if ''out/in'' \<in> set (columns df)
      then Inr (df\<lparr>rows := loc_rows v (rows df)\<rparr>)
      else Inl (KeyError ''out/in''))"

definition location_step :: "string \<Rightarrow> reading frame \<Rightarrow> error + reading frame" where
  "location_step location_filter df =
     (if location_filter = ''Indoor Only'' then select_loc ''In'' df
      else if location_filter = ''Outdoor Only'' then select_loc ''Out'' df
      else Inr df)"

definition in_range :: "int \<Rightarrow> int \<Rightarrow> reading \<Rightarrow> bool" where
  "in_range start_date end_date r \<longleftrightarrow>
     Timestamp start_date \<le> noted_date r \<and> noted_date r \<le> Timestamp end_date"

definition date_step :: "int list \<Rightarrow> reading frame \<Rightarrow> error + reading frame" where
  "date_step date_range df =
     (case date_range of
        [start_date, end_date] \<Rightarrow>
          if ''noted_date'' \<in> set (columns df)
          then Inr (df\<lparr>rows := filter (in_range start_date end_date) (rows df)\<rparr>)
          else Inl (KeyError ''noted_date'')
      | _ \<Rightarrow> Inr df)"

text \<open>\<^verbatim>\<open>df.set_index('noted_date')['temp']\<close>: the temperature series over the time index.\<close>

definition temp_series :: "reading frame \<Rightarrow> error + (int \<times> cell) list" where
  "temp_series df =
     (if ''noted_date'' \<notin> set (columns df) then Inl (KeyError ''noted_date'')
      else if ''temp'' \<notin> set (columns df) then Inl (KeyError ''temp'')
      else Inr (map (\<lambda>r. (noted_date r, temp r)) (rows df)))"

text \<open>
  \<^verbatim>\<open>series.resample(rule).mean()\<close>: the bins are the multiples of the frequency, closed
  and labelled on the left; there is one bin for every step from the bin of the earliest
  index to the bin of the latest one, and the mean of a bin skips missing values, so that
  a bin without a value has the mean NaN. An empty series gives an empty series.
\<close>

definition bin_values :: "int \<Rightarrow> int \<Rightarrow> (int \<times> cell) list \<Rightarrow> cell list" where
  "bin_values w b s = map snd (filter (\<lambda>(t, v). t div w = b) s)"

definition resample_mean :: "freq \<Rightarrow> (int \<times> cell) list \<Rightarrow> (int \<times> cell) list" where
  "resample_mean f s =
     (case map (\<lambda>(t, v). t div freq_ns f) s of
        [] \<Rightarrow> []
      | k # ks \<Rightarrow>
          map (\<lambda>b. (b * freq_ns f, series_mean (bin_values (freq_ns f) b s)))
              [fold min ks k .. fold max ks k])"

text \<open>\<^verbatim>\<open>.reset_index()\<close>, then the assignment of the constant column \<^verbatim>\<open>out/in\<close>.\<close>

definition tagged :: "string \<Rightarrow> (int \<times> cell) list \<Rightarrow> reading frame" where
  "tagged tag s =
     \<lparr>columns = [''noted_date'', ''temp'', ''out/in''],
      rows = map (\<lambda>(t, v). \<lparr>noted_date = t, temp = v, out_in = tag\<rparr>) s\<rparr>"

text \<open>\<^verbatim>\<open>pd.concat\<close> of two frames \<open>tagged\<close> built: the same columns, the rows in sequence.\<close>

definition concat_frames :: "reading frame \<Rightarrow> reading frame \<Rightarrow> reading frame" where
  "concat_frames a b = a\<lparr>rows := rows a @ rows b\<rparr>"

definition resample_step :: "string \<Rightarrow> string \<Rightarrow> reading frame \<Rightarrow> error + reading frame" where
  "resample_step location_filter resample df =
     (case resample_options resample of
        None \<Rightarrow> Inl (KeyError resample)
      | Some None \<Rightarrow> Inr df
      | Some (Some f) \<Rightarrow>
          if location_filter = ''All'' then
            (case select_loc ''In'' df of Inl e \<Rightarrow> Inl e | Inr indoor_data \<Rightarrow>
            (case select_loc ''Out'' df of Inl e \<Rightarrow> Inl e | Inr outdoor_data \<Rightarrow>
            (case temp_series indoor_data of Inl e \<Rightarrow> Inl e | Inr indoor_series \<Rightarrow>
            (case temp_series outdoor_data of Inl e \<Rightarrow> Inl e | Inr outdoor_series \<Rightarrow>
               Inr (concat_frames (tagged ''In'' (resample_mean f indoor_series))
                                  (tagged ''Out'' (resample_mean f outdoor_series)))))))
          else
            (case temp_series df of Inl e \<Rightarrow> Inl e | Inr series \<Rightarrow>
               Inr (tagged (str_replace '' Only'' [] location_filter)
                           (resample_mean f series))))"

text \<open>Lines 244 to 282 of \<^verbatim>\<open>main\<close>: the three steps in sequence.\<close>

definition apply_view ::
  "reading frame \<Rightarrow> string \<Rightarrow> int list \<Rightarrow> string \<Rightarrow> error + reading frame" where
  "apply_view data location_filter date_range resample =
     (case location_step location_filter data of Inl e \<Rightarrow> Inl e | Inr by_location \<Rightarrow>
     (case date_step date_range by_location of Inl e \<Rightarrow> Inl e | Inr by_date \<Rightarrow>
        resample_step location_filter resample by_date))"

section \<open>Properties of calculate_statistics\<close>

lemma overall_stats_lookup:
  "overall_stats rs ''total_records'' = Some (PyInt (int (length rs)))"
  "overall_stats rs ''avg_temp'' = Some (PyFloat (series_mean (map temp rs)))"
  "overall_stats rs ''min_temp'' = Some (PyFloat (series_min (map temp rs)))"
  "overall_stats rs ''max_temp'' = Some (PyFloat (series_max (map temp rs)))"
  by (simp_all add: overall_stats_def)

lemma location_stats_keeps:
  "location_stats rs (overall_stats rs) ''total_records'' = Some (PyInt (int (length rs)))"
  "location_stats rs (overall_stats rs) ''avg_temp'' = Some (PyFloat (series_mean (map temp rs)))"
  "location_stats rs (overall_stats rs) ''min_temp'' = Some (PyFloat (series_min (map temp rs)))"
  "location_stats rs (overall_stats rs) ''max_temp'' = Some (PyFloat (series_max (map temp rs)))"
  by (simp_all add: location_stats_def overall_stats_def Let_def)


lemma calculate_statistics_Some:
  assumes "\<not> df_empty df" and "''temp'' \<in> set (columns df)"
  shows "calculate_statistics (Some df) =
           Inr (Some (if ''out/in'' \<in> set (columns df)
                      then location_stats (rows df) (overall_stats (rows df))
                      else overall_stats (rows df)))"
  using assms by (simp add: calculate_statistics_def)






section \<open>Properties of process_data\<close>

lemma parse_column_Some_iff:
  "parse_column p cs = Some ts \<longleftrightarrow> list_all2 (\<lambda>c t. p c = Some t) cs ts"
proof (induction cs arbitrary: ts)
  case Nil
  then show ?case by auto
next
  case (Cons c cs)
  show ?case
  proof (cases "p c")
    case None
    then show ?thesis by (auto simp: list_all2_Cons1)
  next
    case (Some t)
    then show ?thesis
      using Cons.IH by (cases "parse_column p cs") (auto simp: list_all2_Cons1)
  qed
qed

lemma parse_column_None_iff:
  "parse_column p cs = None \<longleftrightarrow> (\<exists>c \<in> set cs. p c = None)"
  by (induction cs) (auto split: option.splits)

lemma parse_column_nth:
  assumes "parse_column p cs = Some ts"
  shows "length ts = length cs" and "i < length cs \<Longrightarrow> p (cs ! i) = Some (ts ! i)"
  using assms by (auto simp: parse_column_Some_iff list_all2_conv_all_nth)


lemma convert_dates_Some:
  assumes "convert_dates lib df = Some ts"
  shows "length ts = length (rows df)"
    and "\<forall>r \<in> set (rows df). to_datetime_format lib (raw_noted_date r) \<noteq> None \<Longrightarrow>
           i < length (rows df) \<Longrightarrow>
           to_datetime_format lib (raw_noted_date (rows df ! i)) = Some (ts ! i)"
    and "\<exists>r \<in> set (rows df). to_datetime_format lib (raw_noted_date r) = None \<Longrightarrow>
           i < length (rows df) \<Longrightarrow>
           to_datetime lib (raw_noted_date (rows df ! i)) = Some (ts ! i)"
proof -
  let ?col = "map raw_noted_date (rows df)"
  have c: "''noted_date'' \<in> set (columns df)"
    using assms by (auto simp: convert_dates_def split: if_splits)
  show "length ts = length (rows df)"
    using assms c parse_column_nth(1) [of _ ?col ts]
    by (auto simp: convert_dates_def split: option.splits)
  show "to_datetime_format lib (raw_noted_date (rows df ! i)) = Some (ts ! i)"
    if a: "\<forall>r \<in> set (rows df). to_datetime_format lib (raw_noted_date r) \<noteq> None"
      and i: "i < length (rows df)"
  proof -
    have "parse_column (to_datetime_format lib) ?col \<noteq> None"
      using a by (simp add: parse_column_None_iff)
    then have "parse_column (to_datetime_format lib) ?col = Some ts"
      using assms c by (auto simp: convert_dates_def split: option.splits)
    from parse_column_nth(2) [OF this, of i] i show ?thesis by simp
  qed
  show "to_datetime lib (raw_noted_date (rows df ! i)) = Some (ts ! i)"
    if a: "\<exists>r \<in> set (rows df). to_datetime_format lib (raw_noted_date r) = None"
      and i: "i < length (rows df)"
  proof -
    have "parse_column (to_datetime_format lib) ?col = None"
      using a by (simp add: parse_column_None_iff)
    then have "parse_column (to_datetime lib) ?col = Some ts"
      using assms c by (auto simp: convert_dates_def split: option.splits)
    from parse_column_nth(2) [OF this, of i] i show ?thesis by simp
  qed
qed

lemma process_data_None_iff:
  "process_data lib df = None \<longleftrightarrow> convert_dates lib df = None"
  by (simp add: process_data_def split: option.splits)

lemma process_data_Some:
  assumes "convert_dates lib df = Some ts"
  shows "process_data lib df =
           Some \<lparr>columns = columns df,
                 rows = map2 (process_row lib (columns df)) (rows df) ts\<rparr>"
  using assms by (simp add: process_data_def)

lemma process_data_rows:
  assumes "process_data lib df = Some d"
  obtains ts where "convert_dates lib df = Some ts"
    and "columns d = columns df"
    and "length (rows d) = length (rows df)"
    and "\<forall>i < length (rows df).
           rows d ! i = process_row lib (columns df) (rows df ! i) (ts ! i)"
proof -
  from assms obtain ts where ts: "convert_dates lib df = Some ts"
    by (auto simp: process_data_def split: option.splits)
  have len: "length ts = length (rows df)"
    using convert_dates_Some(1) [OF ts] .
  have d: "d = \<lparr>columns = columns df,
                 rows = map2 (process_row lib (columns df)) (rows df) ts\<rparr>"
    using assms process_data_Some [OF ts] by simp
  show thesis
  proof (rule that [OF ts])
    show "columns d = columns df" by (simp add: d)
    show "length (rows d) = length (rows df)" by (simp add: d len)
    show "\<forall>i < length (rows df).
           rows d ! i = process_row lib (columns df) (rows df ! i) (ts ! i)"
      by (simp add: d len)
  qed
qed



lemma dropna_append: "dropna (as @ bs) = dropna as @ dropna bs"
  by (induction as rule: dropna.induct) simp_all

lemma dropna_without_nan:
  assumes "i < length cs" and "cs ! i = NaN"
  shows "dropna (take i cs @ drop (Suc i) cs) = dropna cs"
proof -
  have "cs = take i cs @ NaN # drop (Suc i) cs"
    using assms id_take_nth_drop by metis
  then have "dropna cs = dropna (take i cs) @ dropna (NaN # drop (Suc i) cs)"
    using dropna_append by metis
  then show ?thesis
    by (simp add: dropna_append)
qed

lemma series_mean_without_nan:
  assumes "i < length cs" and "cs ! i = NaN"
  shows "series_mean (take i cs @ drop (Suc i) cs) = series_mean cs"
  using dropna_without_nan [OF assms] by (simp add: series_mean_def)

lemma to_numeric_coerce_missing:
  assumes "c = RNaN \<or> (\<exists>s. c = RStr s \<and> str_to_number lib s = None)"
  shows "to_numeric_coerce lib c = NaN"
  using assms by auto

text \<open>
  Claim C7. A temperature cell that cannot be read as a number (a string such as
  \<^verbatim>\<open>"N/A"\<close> that the library does not read as a number, or a cell that
  \<^verbatim>\<open>read_csv\<close> already delivered as missing) does not make \<^verbatim>\<open>process_data\<close> fail: when
  the timestamps parse, the frame is returned and the row has the temperature NaN.
  \<^verbatim>\<open>calculate_statistics\<close> counts that row in \<^verbatim>\<open>total_records\<close>, and \<^verbatim>\<open>avg_temp\<close> is the
  mean over the other rows.
\<close>

theorem unconvertible_temp_is_missing:
  assumes "''temp'' \<in> set (columns df)"
    and "i < length (rows df)"
    and "raw_temp (rows df ! i) = RNaN
         \<or> (\<exists>s. raw_temp (rows df ! i) = RStr s \<and> str_to_number lib s = None)"
    and "convert_dates lib df \<noteq> None"
  shows "\<exists>d st. process_data lib df = Some d
     \<and> length (rows d) = length (rows df)
     \<and> temp (rows d ! i) = NaN
     \<and> calculate_statistics (Some d) = Inr (Some st)
     \<and> st ''total_records'' = Some (PyInt (int (length (rows df))))
     \<and> st ''avg_temp''
         = Some (PyFloat (series_mean (map temp (take i (rows d) @ drop (Suc i) (rows d)))))"
proof -
  from assms(4) obtain d where d: "process_data lib df = Some d"
    using process_data_None_iff [of lib df] by auto
  then obtain ts where cols: "columns d = columns df"
    and len: "length (rows d) = length (rows df)"
    and row: "\<forall>i < length (rows df).
           rows d ! i = process_row lib (columns df) (rows df ! i) (ts ! i)"
    using process_data_rows [of lib df d] by blast
  have nan: "temp (rows d ! i) = NaN"
    using row assms(1,2) to_numeric_coerce_missing [OF assms(3)]
    by (simp add: process_row_def)
  have ne: "\<not> df_empty d"
    using assms(1,2) cols len by (auto simp: df_empty_def)
  have tc: "''temp'' \<in> set (columns d)"
    using assms(1) cols by simp
  let ?st = "if ''out/in'' \<in> set (columns d)
             then location_stats (rows d) (overall_stats (rows d))
             else overall_stats (rows d)"
  have st: "calculate_statistics (Some d) = Inr (Some ?st)"
    using calculate_statistics_Some [OF ne tc] .
  have total: "?st ''total_records'' = Some (PyInt (int (length (rows df))))"
    by (simp add: overall_stats_lookup location_stats_keeps len)
  have "series_mean (take i (map temp (rows d)) @ drop (Suc i) (map temp (rows d)))
        = series_mean (map temp (rows d))"
    using series_mean_without_nan [of i "map temp (rows d)"] nan assms(2) len by simp
  then have avg: "?st ''avg_temp''
         = Some (PyFloat (series_mean (map temp (take i (rows d) @ drop (Suc i) (rows d)))))"
    by (simp add: overall_stats_lookup location_stats_keeps take_map drop_map)
  from d len nan st total avg show ?thesis by blast
qed

theorem unconvertible_temp_is_missing_witness:
  "\<exists>d st. process_data
     \<lparr>to_datetime_format = (\<lambda>c. if c = RStr ''02-01-2021 23:59'' then Some 1609631940000000000 else None),
      to_datetime = (\<lambda>c. None),
      str_to_number = (\<lambda>s. if s = ''21.5'' then Some (43 / 2) else None),
      number_to_str = (\<lambda>v. ''21.5'')\<rparr>
     \<lparr>columns = [''noted_date'', ''temp'', ''out/in''],
      rows = [\<lparr>raw_noted_date = RStr ''02-01-2021 23:59'', raw_temp = RStr ''21.5'', raw_out_in = RStr ''In''\<rparr>,
              \<lparr>raw_noted_date = RStr ''02-01-2021 23:59'', raw_temp = RStr ''N/A'', raw_out_in = RStr ''In''\<rparr>]\<rparr>
     = Some d
   \<and> length (rows d) = 2
   \<and> temp (rows d ! 1) = NaN
   \<and> calculate_statistics (Some d) = Inr (Some st)
   \<and> st ''total_records'' = Some (PyInt 2)
   \<and> st ''avg_temp'' = Some (PyFloat (Num (43 / 2)))"
proof -
  let ?lib = "\<lparr>to_datetime_format = (\<lambda>c. if c = RStr ''02-01-2021 23:59'' then Some 1609631940000000000 else None),
      to_datetime = (\<lambda>c. None),
      str_to_number = (\<lambda>s. if s = ''21.5'' then Some (43 / 2) else None),
      number_to_str = (\<lambda>v. ''21.5'')\<rparr>"
  let ?df = "\<lparr>columns = [''noted_date'', ''temp'', ''out/in''],
      rows = [\<lparr>raw_noted_date = RStr ''02-01-2021 23:59'', raw_temp = RStr ''21.5'', raw_out_in = RStr ''In''\<rparr>,
              \<lparr>raw_noted_date = RStr ''02-01-2021 23:59'', raw_temp = RStr ''N/A'', raw_out_in = RStr ''In''\<rparr>]\<rparr>"
  have 1: "''temp'' \<in> set (columns ?df)" by simp
  have 2: "1 < length (rows ?df)" by simp
  have 3: "raw_temp (rows ?df ! 1) = RNaN
         \<or> (\<exists>s. raw_temp (rows ?df ! 1) = RStr s \<and> str_to_number ?lib s = None)" by simp
  have 4: "convert_dates ?lib ?df \<noteq> None" by (simp add: convert_dates_def)
  from unconvertible_temp_is_missing [OF 1 2 3 4]
  obtain d st where d: "process_data ?lib ?df = Some d"
     and r: "length (rows d) = length (rows ?df)" "temp (rows d ! 1) = NaN"
       "calculate_statistics (Some d) = Inr (Some st)"
       "st ''total_records'' = Some (PyInt (int (length (rows ?df))))"
       "st ''avg_temp'' = Some (PyFloat (series_mean (map temp (take 1 (rows d) @ drop (Suc 1) (rows d)))))"
    by blast
  have "d = \<lparr>columns = [''noted_date'', ''temp'', ''out/in''],
      rows = [\<lparr>noted_date = 1609631940000000000, temp = Num (43 / 2), out_in = ''In''\<rparr>,
              \<lparr>noted_date = 1609631940000000000, temp = NaN, out_in = ''In''\<rparr>]\<rparr>"
    using d by (simp add: process_data_def convert_dates_def process_row_def)
  then have "st ''avg_temp'' = Some (PyFloat (Num (43 / 2)))"
    using r(5) by (simp add: series_mean_def)
  with d r show ?thesis by auto
qed

section \<open>Resampling and the steps of the view\<close>

lemma freq_ns_pos: "0 < freq_ns f"
  by (cases f) (simp_all add: ns_per_hour_def ns_per_day_def)

lemma bin_label_eq_iff: "t div freq_ns f * freq_ns f = b * freq_ns f \<longleftrightarrow> t div freq_ns f = b"
  using freq_ns_pos [of f] by simp

lemma bin_label_le_iff: "a * freq_ns f \<le> b * freq_ns f \<longleftrightarrow> a \<le> b"
  using freq_ns_pos [of f] by simp

lemma bin_label_div: "b * freq_ns f div freq_ns f = b"
  using freq_ns_pos [of f] by simp

lemma fold_min_le_iff: "fold min ks (k::int) \<le> b \<longleftrightarrow> (\<exists>a \<in> set (k # ks). a \<le> b)"
proof -
  have "fold min ks k = Min (set (k # ks))"
    using Min.set_eq_fold [of k ks] by simp
  then show ?thesis
    using Min_le_iff [of "set (k # ks)" b] by simp
qed

lemma le_fold_max_iff: "b \<le> fold max ks (k::int) \<longleftrightarrow> (\<exists>a \<in> set (k # ks). b \<le> a)"
proof -
  have "fold max ks k = Max (set (k # ks))"
    using Max.set_eq_fold [of k ks] by simp
  then show ?thesis
    using Max_ge_iff [of "set (k # ks)" b] by simp
qed

lemma resample_mean_Nil: "resample_mean f [] = []"
  by (simp add: resample_mean_def)

lemma resample_mean_mem:
  "(t, v) \<in> set (resample_mean f s) \<longleftrightarrow>
     (\<exists>b. t = b * freq_ns f
        \<and> v = series_mean (bin_values (freq_ns f) b s)
        \<and> (\<exists>p \<in> set s. fst p div freq_ns f \<le> b)
        \<and> (\<exists>q \<in> set s. b \<le> fst q div freq_ns f))"
proof (cases s)
  case Nil
  then show ?thesis by (simp add: resample_mean_def)
next
  case (Cons p ps)
  let ?w = "freq_ns f"
  let ?k = "fst p div ?w"
  let ?ks = "map (\<lambda>(t, v). t div ?w) ps"
  have ks: "map (\<lambda>(t, v). t div ?w) s = ?k # ?ks"
    by (simp add: Cons split_beta)
  have bins: "set (?k # ?ks) = (\<lambda>p. fst p div ?w) ` set s"
    by (auto simp: Cons split_beta)
  have lo: "fold min ?ks ?k \<le> b \<longleftrightarrow> (\<exists>p \<in> set s. fst p div ?w \<le> b)" for b
    unfolding fold_min_le_iff bins by blast
  have hi: "b \<le> fold max ?ks ?k \<longleftrightarrow> (\<exists>q \<in> set s. b \<le> fst q div ?w)" for b
    unfolding le_fold_max_iff bins by blast
  have "resample_mean f s =
          map (\<lambda>b. (b * ?w, series_mean (bin_values ?w b s))) [fold min ?ks ?k .. fold max ?ks ?k]"
    unfolding resample_mean_def ks by simp
  then have "(t, v) \<in> set (resample_mean f s) \<longleftrightarrow>
      (\<exists>b. fold min ?ks ?k \<le> b \<and> b \<le> fold max ?ks ?k
         \<and> t = b * ?w \<and> v = series_mean (bin_values ?w b s))"
    by auto
  then show ?thesis
    unfolding lo hi by blast
qed

lemma bin_values_series:
  "bin_values w b (map (\<lambda>r. (noted_date r, temp r)) rs)
     = map temp (filter (\<lambda>r. noted_date r div w = b) rs)"
  by (induction rs) (simp_all add: bin_values_def)

lemma tagged_rows_mem:
  "r \<in> set (rows (tagged tag s)) \<longleftrightarrow> out_in r = tag \<and> (noted_date r, temp r) \<in> set s"
  by (cases r) (auto simp: tagged_def)

text \<open>A row of a resampled and tagged series of readings.\<close>

lemma resampled_row_iff:
  "r \<in> set (rows (tagged tag (resample_mean f (map (\<lambda>r. (noted_date r, temp r)) rs)))) \<longleftrightarrow>
     out_in r = tag
     \<and> noted_date r = noted_date r div freq_ns f * freq_ns f
     \<and> temp r = series_mean (map temp
         (filter (\<lambda>s. noted_date s div freq_ns f = noted_date r div freq_ns f) rs))
     \<and> (\<exists>s1 \<in> set rs. noted_date s1 div freq_ns f \<le> noted_date r div freq_ns f)
     \<and> (\<exists>s2 \<in> set rs. noted_date r div freq_ns f \<le> noted_date s2 div freq_ns f)"
  (is "?L \<longleftrightarrow> ?R")
proof
  assume ?L
  then obtain b where tag: "out_in r = tag"
    and t: "noted_date r = b * freq_ns f"
    and v: "temp r = series_mean (map temp (filter (\<lambda>s. noted_date s div freq_ns f = b) rs))"
    and lo: "\<exists>s1 \<in> set rs. noted_date s1 div freq_ns f \<le> b"
    and hi: "\<exists>s2 \<in> set rs. b \<le> noted_date s2 div freq_ns f"
    by (auto simp: tagged_rows_mem resample_mean_mem bin_values_series)
  have b: "noted_date r div freq_ns f = b"
    using t bin_label_div by simp
  show ?R
    using tag t v lo hi unfolding b by simp
next
  assume ?R
  then show ?L
    unfolding tagged_rows_mem resample_mean_mem bin_values_series
    by (intro conjI exI [of _ "noted_date r div freq_ns f"]) auto
qed

lemma select_loc_Inr:
  assumes "''out/in'' \<in> set (columns df)"
  shows "select_loc v df = Inr (df\<lparr>rows := loc_rows v (rows df)\<rparr>)"
  using assms by (simp add: select_loc_def)

lemma temp_series_Inr:
  assumes "''noted_date'' \<in> set (columns df)" and "''temp'' \<in> set (columns df)"
  shows "temp_series df = Inr (map (\<lambda>r. (noted_date r, temp r)) (rows df))"
  using assms by (simp add: temp_series_def)

lemma date_step_columns:
  assumes "date_step date_range df = Inr by_date"
  shows "columns by_date = columns df"
  using assms
  by (auto simp: date_step_def split: list.splits if_splits)

lemma date_step_rows:
  assumes "date_step date_range df = Inr by_date"
  shows "rows by_date =
           (case date_range of
              [start_date, end_date] \<Rightarrow> filter (in_range start_date end_date) (rows df)
            | _ \<Rightarrow> rows df)"
  using assms
  by (auto simp: date_step_def split: list.splits if_splits)

lemma date_step_Inr:
  assumes "''noted_date'' \<in> set (columns df)"
  shows "\<exists>by_date. date_step date_range df = Inr by_date"
  using assms
  by (auto simp: date_step_def split: list.splits)

lemma resample_options_Some:
  "resample_options resample = Some (Some f) \<longleftrightarrow>
     resample = ''Hourly Average'' \<and> f = H \<or> resample = ''Daily Average'' \<and> f = D"
  by (auto simp: resample_options_def)

lemma resample_step_All:
  assumes "resample_options resample = Some (Some f)"
    and "''noted_date'' \<in> set (columns df)"
    and "''temp'' \<in> set (columns df)"
    and "''out/in'' \<in> set (columns df)"
  shows "resample_step ''All'' resample df =
     Inr (concat_frames
       (tagged ''In'' (resample_mean f (map (\<lambda>r. (noted_date r, temp r)) (loc_rows ''In'' (rows df)))))
       (tagged ''Out'' (resample_mean f (map (\<lambda>r. (noted_date r, temp r)) (loc_rows ''Out'' (rows df))))))"
  using assms
  by (simp add: resample_step_def select_loc_Inr temp_series_Inr)

lemma resample_step_single:
  assumes "resample_options resample = Some (Some f)"
    and "''noted_date'' \<in> set (columns df)"
    and "''temp'' \<in> set (columns df)"
    and "location_filter \<noteq> ''All''"
  shows "resample_step location_filter resample df =
     Inr (tagged (str_replace '' Only'' [] location_filter)
            (resample_mean f (map (\<lambda>r. (noted_date r, temp r)) (rows df))))"
  using assms
  by (simp add: resample_step_def temp_series_Inr)

lemma resample_step_None:
  "resample_step location_filter ''None'' df = Inr df"
  by (simp add: resample_step_def resample_options_def)

lemma apply_view_All:
  assumes "date_step date_range data = Inr by_date"
  shows "apply_view data ''All'' date_range resample = resample_step ''All'' resample by_date"
  using assms by (simp add: apply_view_def location_step_def)

lemma concat_frames_rows: "rows (concat_frames a b) = rows a @ rows b"
  by (simp add: concat_frames_def)

lemma loc_rows_filter:
  "filter P (loc_rows l rs) = filter (\<lambda>s. out_in s = l \<and> P s) rs"
  by (simp add: loc_rows_def conj_commute)

lemma loc_rows_mem: "s \<in> set (loc_rows l rs) \<longleftrightarrow> s \<in> set rs \<and> out_in s = l"
  by (auto simp: loc_rows_def)

text \<open>
  The same, with the bin of a source row named by its label, the start of the bin:
  \<open>noted_date s div freq_ns f * freq_ns f\<close>.
\<close>

lemma resampled_row_label:
  assumes "r \<in> set (rows (tagged tag (resample_mean f (map (\<lambda>r. (noted_date r, temp r)) rs))))"
  shows "out_in r = tag"
    and "temp r = series_mean (map temp
           (filter (\<lambda>s. noted_date s div freq_ns f * freq_ns f = noted_date r) rs))"
    and "\<exists>s1 \<in> set rs. noted_date s1 div freq_ns f * freq_ns f \<le> noted_date r"
    and "\<exists>s2 \<in> set rs. noted_date r \<le> noted_date s2 div freq_ns f * freq_ns f"
proof -
  let ?w = "freq_ns f"
  let ?b = "noted_date r div ?w"
  from assms have tag: "out_in r = tag"
    and t: "noted_date r = ?b * ?w"
    and v: "temp r = series_mean (map temp (filter (\<lambda>s. noted_date s div ?w = ?b) rs))"
    and lo: "\<exists>s1 \<in> set rs. noted_date s1 div ?w \<le> ?b"
    and hi: "\<exists>s2 \<in> set rs. ?b \<le> noted_date s2 div ?w"
    unfolding resampled_row_iff by simp_all
  have eq: "noted_date s div ?w * ?w = noted_date r \<longleftrightarrow> noted_date s div ?w = ?b" for s
    using bin_label_eq_iff [of "noted_date s" f ?b] t by simp
  have le1: "noted_date s div ?w * ?w \<le> noted_date r \<longleftrightarrow> noted_date s div ?w \<le> ?b" for s
    using bin_label_le_iff [of "noted_date s div ?w" f ?b] t by simp
  have le2: "noted_date r \<le> noted_date s div ?w * ?w \<longleftrightarrow> ?b \<le> noted_date s div ?w" for s
    using bin_label_le_iff [of ?b f "noted_date s div ?w"] t by simp
  show "out_in r = tag" by (rule tag)
  show "temp r = series_mean (map temp
           (filter (\<lambda>s. noted_date s div ?w * ?w = noted_date r) rs))"
    using v by (simp only: eq)
  show "\<exists>s1 \<in> set rs. noted_date s1 div ?w * ?w \<le> noted_date r"
    using lo by (simp only: le1)
  show "\<exists>s2 \<in> set rs. noted_date r \<le> noted_date s2 div ?w * ?w"
    using hi by (simp only: le2)
qed

text \<open>Every bin from the first to the last occupied one has a row.\<close>

lemma resampled_bin_has_row:
  assumes "s1 \<in> set rs" and "s2 \<in> set rs"
    and "noted_date s1 div freq_ns f \<le> b" and "b \<le> noted_date s2 div freq_ns f"
  shows "\<exists>r \<in> set (rows (tagged tag (resample_mean f (map (\<lambda>r. (noted_date r, temp r)) rs)))).
           noted_date r = b * freq_ns f \<and> out_in r = tag"
proof -
  let ?w = "freq_ns f"
  let ?r = "\<lparr>noted_date = b * ?w,
             temp = series_mean (map temp (filter (\<lambda>s. noted_date s div ?w = b) rs)),
             out_in = tag\<rparr>"
  have "?r \<in> set (rows (tagged tag (resample_mean f (map (\<lambda>r. (noted_date r, temp r)) rs))))"
    unfolding resampled_row_iff using assms by (auto simp: bin_label_div)
  then show ?thesis
    by (intro bexI [of _ ?r]) simp_all
qed

lemma str_replace_Indoor: "str_replace '' Only'' [] ''Indoor Only'' = ''Indoor''"
  by (simp add: str_replace.simps)

lemma str_replace_Outdoor: "str_replace '' Only'' [] ''Outdoor Only'' = ''Outdoor''"
  by (simp add: str_replace.simps)

lemma apply_view_All_resample:
  assumes "resample_options resample = Some (Some f)"
    and "''noted_date'' \<in> set (columns data)"
    and "''temp'' \<in> set (columns data)"
    and "''out/in'' \<in> set (columns data)"
    and "date_step date_range data = Inr by_date"
  shows "apply_view data ''All'' date_range resample =
     Inr (concat_frames
       (tagged ''In'' (resample_mean f (map (\<lambda>r. (noted_date r, temp r)) (loc_rows ''In'' (rows by_date)))))
       (tagged ''Out'' (resample_mean f (map (\<lambda>r. (noted_date r, temp r)) (loc_rows ''Out'' (rows by_date))))))"
proof -
  have c: "columns by_date = columns data"
    using date_step_columns [OF assms(5)] .
  show ?thesis
    unfolding apply_view_All [OF assms(5)]
    using resample_step_All [OF assms(1), of by_date] assms(2-4) c by simp
qed

text \<open>
  Claim C1. With the location filter \<^verbatim>\<open>"All"\<close> and a resampling option chosen (hourly or
  daily), the view resamples the rows with location \<^verbatim>\<open>"In"\<close> and those with location
  \<^verbatim>\<open>"Out"\<close> separately, each over its own time index, and puts the two results one
  after the other. Every row of the output is tagged \<^verbatim>\<open>"In"\<close> or \<^verbatim>\<open>"Out"\<close>; its
  temperature is the mean over exactly the source rows of that same location in its
  bin, and its bin lies between the bins of two source rows of that location. No output
  row averages indoor and outdoor readings together. Here \<open>by_date\<close> is the frame after
  the date filter.
\<close>

theorem all_resample_keeps_locations_apart:
  assumes "resample_options resample = Some (Some f)"
    and "''noted_date'' \<in> set (columns data)"
    and "''temp'' \<in> set (columns data)"
    and "''out/in'' \<in> set (columns data)"
    and "date_step date_range data = Inr by_date"
  shows "\<exists>out. apply_view data ''All'' date_range resample = Inr out
     \<and> rows out =
         rows (tagged ''In'' (resample_mean f
                 (map (\<lambda>r. (noted_date r, temp r)) (loc_rows ''In'' (rows by_date)))))
         @ rows (tagged ''Out'' (resample_mean f
                 (map (\<lambda>r. (noted_date r, temp r)) (loc_rows ''Out'' (rows by_date)))))
     \<and> (\<forall>r \<in> set (rows out).
          (out_in r = ''In'' \<or> out_in r = ''Out'')
          \<and> temp r = series_mean (map temp
              (filter (\<lambda>s. out_in s = out_in r
                         \<and> noted_date s div freq_ns f * freq_ns f = noted_date r)
                 (rows by_date)))
          \<and> (\<exists>s1 \<in> set (rows by_date). out_in s1 = out_in r
                \<and> noted_date s1 div freq_ns f * freq_ns f \<le> noted_date r)
          \<and> (\<exists>s2 \<in> set (rows by_date). out_in s2 = out_in r
                \<and> noted_date r \<le> noted_date s2 div freq_ns f * freq_ns f))"
proof -
  let ?part = "\<lambda>l. rows (tagged l (resample_mean f
                 (map (\<lambda>r. (noted_date r, temp r)) (loc_rows l (rows by_date)))))"
  let ?out = "concat_frames
       (tagged ''In'' (resample_mean f (map (\<lambda>r. (noted_date r, temp r)) (loc_rows ''In'' (rows by_date)))))
       (tagged ''Out'' (resample_mean f (map (\<lambda>r. (noted_date r, temp r)) (loc_rows ''Out'' (rows by_date)))))"
  have out: "apply_view data ''All'' date_range resample = Inr ?out"
    using apply_view_All_resample [OF assms] .
  have rows: "rows ?out = ?part ''In'' @ ?part ''Out''"
    by (simp add: concat_frames_rows)
  have part: "temp r = series_mean (map temp
              (filter (\<lambda>s. out_in s = out_in r
                         \<and> noted_date s div freq_ns f * freq_ns f = noted_date r)
                 (rows by_date)))
          \<and> (\<exists>s1 \<in> set (rows by_date). out_in s1 = out_in r
                \<and> noted_date s1 div freq_ns f * freq_ns f \<le> noted_date r)
          \<and> (\<exists>s2 \<in> set (rows by_date). out_in s2 = out_in r
                \<and> noted_date r \<le> noted_date s2 div freq_ns f * freq_ns f)
          \<and> out_in r = l"
    if r: "r \<in> set (?part l)" for r l
  proof -
    note lab = resampled_row_label [OF r]
    have l: "out_in r = l" using lab(1) .
    have "temp r = series_mean (map temp
              (filter (\<lambda>s. out_in s = l
                         \<and> noted_date s div freq_ns f * freq_ns f = noted_date r)
                 (rows by_date)))"
      using lab(2) by (simp only: loc_rows_filter)
    moreover have "\<exists>s1 \<in> set (rows by_date). out_in s1 = l
                \<and> noted_date s1 div freq_ns f * freq_ns f \<le> noted_date r"
      using lab(3) by (auto simp: loc_rows_mem)
    moreover have "\<exists>s2 \<in> set (rows by_date). out_in s2 = l
                \<and> noted_date r \<le> noted_date s2 div freq_ns f * freq_ns f"
      using lab(4) by (auto simp: loc_rows_mem)
    ultimately show ?thesis
      using l by simp
  qed
  have all: "\<forall>r \<in> set (rows ?out).
          (out_in r = ''In'' \<or> out_in r = ''Out'')
          \<and> temp r = series_mean (map temp
              (filter (\<lambda>s. out_in s = out_in r
                         \<and> noted_date s div freq_ns f * freq_ns f = noted_date r)
                 (rows by_date)))
          \<and> (\<exists>s1 \<in> set (rows by_date). out_in s1 = out_in r
                \<and> noted_date s1 div freq_ns f * freq_ns f \<le> noted_date r)
          \<and> (\<exists>s2 \<in> set (rows by_date). out_in s2 = out_in r
                \<and> noted_date r \<le> noted_date s2 div freq_ns f * freq_ns f)"
  proof
    fix r
    assume "r \<in> set (rows ?out)"
    then consider "r \<in> set (?part ''In'')" | "r \<in> set (?part ''Out'')"
      unfolding rows by auto
    then show "(out_in r = ''In'' \<or> out_in r = ''Out'')
          \<and> temp r = series_mean (map temp
              (filter (\<lambda>s. out_in s = out_in r
                         \<and> noted_date s div freq_ns f * freq_ns f = noted_date r)
                 (rows by_date)))
          \<and> (\<exists>s1 \<in> set (rows by_date). out_in s1 = out_in r
                \<and> noted_date s1 div freq_ns f * freq_ns f \<le> noted_date r)
          \<and> (\<exists>s2 \<in> set (rows by_date). out_in s2 = out_in r
                \<and> noted_date r \<le> noted_date s2 div freq_ns f * freq_ns f)"
    proof cases
      case 1
      from part [OF 1] show ?thesis by blast
    next
      case 2
      from part [OF 2] show ?thesis by blast
    qed
  qed
  from out rows all show ?thesis by blast
qed

theorem all_resample_keeps_locations_apart_witness:
  "resample_options ''Hourly Average'' = Some (Some H)
   \<and> apply_view
       \<lparr>columns = [''noted_date'', ''temp'', ''out/in''],
        rows = [\<lparr>noted_date = 1609459200000000000, temp = Num 10, out_in = ''In''\<rparr>,
                \<lparr>noted_date = 1609461000000000000, temp = Num 20, out_in = ''In''\<rparr>,
                \<lparr>noted_date = 1609460100000000000, temp = Num 5, out_in = ''Out''\<rparr>]\<rparr>
       ''All'' [18628] ''Hourly Average''
     = Inr \<lparr>columns = [''noted_date'', ''temp'', ''out/in''],
        rows = [\<lparr>noted_date = 1609459200000000000, temp = Num 15, out_in = ''In''\<rparr>,
                \<lparr>noted_date = 1609459200000000000, temp = Num 5, out_in = ''Out''\<rparr>]\<rparr>"
proof -
  let ?data = "\<lparr>columns = [''noted_date'', ''temp'', ''out/in''],
        rows = [\<lparr>noted_date = 1609459200000000000, temp = Num 10, out_in = ''In''\<rparr>,
                \<lparr>noted_date = 1609461000000000000, temp = Num 20, out_in = ''In''\<rparr>,
                \<lparr>noted_date = 1609460100000000000, temp = Num 5, out_in = ''Out''\<rparr>]\<rparr>"
  have 1: "resample_options ''Hourly Average'' = Some (Some H)"
    by (simp add: resample_options_def)
  have 2: "''noted_date'' \<in> set (columns ?data)" by simp
  have 3: "''temp'' \<in> set (columns ?data)" by simp
  have 4: "''out/in'' \<in> set (columns ?data)" by simp
  have 5: "date_step [18628] ?data = Inr ?data"
    by (simp add: date_step_def)
  from all_resample_keeps_locations_apart [OF 1 2 3 4 5]
  obtain out where out: "apply_view ?data ''All'' [18628] ''Hourly Average'' = Inr out"
    and rows: "rows out =
         rows (tagged ''In'' (resample_mean H
                 (map (\<lambda>r. (noted_date r, temp r)) (loc_rows ''In'' (rows ?data)))))
         @ rows (tagged ''Out'' (resample_mean H
                 (map (\<lambda>r. (noted_date r, temp r)) (loc_rows ''Out'' (rows ?data)))))"
    by blast
  have c: "columns out = [''noted_date'', ''temp'', ''out/in'']"
    using out unfolding apply_view_All_resample [OF 1 2 3 4 5]
    by (auto simp: concat_frames_def tagged_def)
  have "rows out = [\<lparr>noted_date = 1609459200000000000, temp = Num 15, out_in = ''In''\<rparr>,
                \<lparr>noted_date = 1609459200000000000, temp = Num 5, out_in = ''Out''\<rparr>]"
    unfolding rows
    by (simp add: tagged_def resample_mean_def loc_rows_def bin_values_def series_mean_def
        ns_per_hour_def)
  with c have "out = \<lparr>columns = [''noted_date'', ''temp'', ''out/in''],
        rows = [\<lparr>noted_date = 1609459200000000000, temp = Num 15, out_in = ''In''\<rparr>,
                \<lparr>noted_date = 1609459200000000000, temp = Num 5, out_in = ''Out''\<rparr>]\<rparr>"
    by (cases out) simp
  with 1 out show ?thesis by simp
qed

lemmas view_defs =
  apply_view_def location_step_def date_step_def resample_step_def resample_options_def
  select_loc_def temp_series_def loc_rows_def tagged_def concat_frames_def
  resample_mean_def bin_values_def series_mean_def in_range_def Timestamp_def
  ns_per_hour_def ns_per_day_def

lemma location_step_columns:
  assumes "location_step location_filter data = Inr by_location"
  shows "columns by_location = columns data"
  using assms by (auto simp: location_step_def select_loc_def split: if_splits)

lemma location_step_All:
  "location_step ''All'' data = Inr data"
  by (simp add: location_step_def)

lemma apply_view_steps:
  assumes "location_step location_filter data = Inr by_location"
    and "date_step date_range by_location = Inr by_date"
  shows "apply_view data location_filter date_range resample
           = resample_step location_filter resample by_date"
  using assms by (simp add: apply_view_def)

lemma series_mean_Nil: "series_mean [] = NaN"
  by (simp add: series_mean_def)

text \<open>A row of the resampled series of one location, with the sources named in the frame.\<close>

lemma located_row_label:
  assumes "r \<in> set (rows (tagged l (resample_mean f
             (map (\<lambda>r. (noted_date r, temp r)) (loc_rows l rs)))))"
  shows "out_in r = l"
    and "temp r = series_mean (map temp
           (filter (\<lambda>s. out_in s = out_in r
                      \<and> noted_date s div freq_ns f * freq_ns f = noted_date r) rs))"
    and "\<exists>s1 \<in> set rs. out_in s1 = out_in r
           \<and> noted_date s1 div freq_ns f * freq_ns f \<le> noted_date r"
    and "\<exists>s2 \<in> set rs. out_in s2 = out_in r
           \<and> noted_date r \<le> noted_date s2 div freq_ns f * freq_ns f"
proof -
  note lab = resampled_row_label [OF assms]
  show l: "out_in r = l" using lab(1) .
  show "temp r = series_mean (map temp
           (filter (\<lambda>s. out_in s = out_in r
                      \<and> noted_date s div freq_ns f * freq_ns f = noted_date r) rs))"
    using lab(2) unfolding l by (simp only: loc_rows_filter)
  show "\<exists>s1 \<in> set rs. out_in s1 = out_in r
           \<and> noted_date s1 div freq_ns f * freq_ns f \<le> noted_date r"
    using lab(3) unfolding l by (auto simp: loc_rows_mem)
  show "\<exists>s2 \<in> set rs. out_in s2 = out_in r
           \<and> noted_date r \<le> noted_date s2 div freq_ns f * freq_ns f"
    using lab(4) unfolding l by (auto simp: loc_rows_mem)
qed

text \<open>
  Claim C3 says that a bin without source rows gets no row in the output. It does: with
  readings at 00:00 and at 02:00 only, the hourly view has a row for the bin of 01:00,
  with a missing temperature.
\<close>

theorem empty_bin_row_counterexample:
  "apply_view
     \<lparr>columns = [''noted_date'', ''temp'', ''out/in''],
      rows = [\<lparr>noted_date = 1609459200000000000, temp = Num 10, out_in = ''In''\<rparr>,
              \<lparr>noted_date = 1609466400000000000, temp = Num 20, out_in = ''In''\<rparr>]\<rparr>
     ''All'' [18628] ''Hourly Average''
   = Inr \<lparr>columns = [''noted_date'', ''temp'', ''out/in''],
      rows = [\<lparr>noted_date = 1609459200000000000, temp = Num 10, out_in = ''In''\<rparr>,
              \<lparr>noted_date = 1609462800000000000, temp = NaN, out_in = ''In''\<rparr>,
              \<lparr>noted_date = 1609466400000000000, temp = Num 20, out_in = ''In''\<rparr>]\<rparr>"
  by (simp add: view_defs)

text \<open>
  Claim C3, amended. When resampling, the view has a row for every bin from the first to
  the last occupied bin of the resampled series (the series of each location under
  \<^verbatim>\<open>"All"\<close>, the one filtered series otherwise), and for no bin outside that span. A bin
  in the span without a source row gets a row whose temperature is missing (NaN): no
  value is carried forward and no zero is put in. Here \<open>by_date\<close> is the frame after
  the location filter and the date filter.
\<close>

theorem resample_empty_bin_is_missing:
  assumes "resample_options resample = Some (Some f)"
    and "''noted_date'' \<in> set (columns data)"
    and "''temp'' \<in> set (columns data)"
    and "''out/in'' \<in> set (columns data)"
    and "location_step location_filter data = Inr by_location"
    and "date_step date_range by_location = Inr by_date"
  shows "\<exists>out. apply_view data location_filter date_range resample = Inr out
     \<and> (\<forall>r \<in> set (rows out).
          (filter (\<lambda>s. (location_filter = ''All'' \<longrightarrow> out_in s = out_in r)
                      \<and> noted_date s div freq_ns f * freq_ns f = noted_date r)
                  (rows by_date) = []
             \<longrightarrow> temp r = NaN)
          \<and> (\<exists>s1 \<in> set (rows by_date).
                (location_filter = ''All'' \<longrightarrow> out_in s1 = out_in r)
                \<and> noted_date s1 div freq_ns f * freq_ns f \<le> noted_date r)
          \<and> (\<exists>s2 \<in> set (rows by_date).
                (location_filter = ''All'' \<longrightarrow> out_in s2 = out_in r)
                \<and> noted_date r \<le> noted_date s2 div freq_ns f * freq_ns f))
     \<and> (\<forall>s1 \<in> set (rows by_date). \<forall>s2 \<in> set (rows by_date). \<forall>b.
          (location_filter = ''All'' \<longrightarrow>
             out_in s1 = out_in s2 \<and> (out_in s1 = ''In'' \<or> out_in s1 = ''Out''))
          \<and> noted_date s1 div freq_ns f \<le> b \<and> b \<le> noted_date s2 div freq_ns f
          \<longrightarrow> (\<exists>r \<in> set (rows out). noted_date r = b * freq_ns f
                 \<and> (location_filter = ''All'' \<longrightarrow> out_in r = out_in s1)))"
proof -
  let ?w = "freq_ns f"
  let ?series = "\<lambda>rs. map (\<lambda>r. (noted_date r, temp r)) rs"
  have cl: "columns by_location = columns data"
    using location_step_columns [OF assms(5)] .
  have cd: "columns by_date = columns data"
    using date_step_columns [OF assms(6)] cl by simp
  have view: "apply_view data location_filter date_range resample
                = resample_step location_filter resample by_date"
    using apply_view_steps [OF assms(5,6)] .
  show ?thesis
  proof (cases "location_filter = ''All''")
    case True
    let ?part = "\<lambda>l. rows (tagged l (resample_mean f (?series (loc_rows l (rows by_date)))))"
    let ?out = "concat_frames (tagged ''In'' (resample_mean f (?series (loc_rows ''In'' (rows by_date)))))
                  (tagged ''Out'' (resample_mean f (?series (loc_rows ''Out'' (rows by_date)))))"
    have out: "apply_view data ''All'' date_range resample = Inr ?out"
      using view True resample_step_All [OF assms(1), of by_date] assms(2-4) cd by simp
    have rows: "set (rows ?out) = set (?part ''In'') \<union> set (?part ''Out'')"
      by (simp add: concat_frames_rows)
    have a: "\<forall>r \<in> set (rows ?out).
          (filter (\<lambda>s. out_in s = out_in r \<and> noted_date s div ?w * ?w = noted_date r)
                  (rows by_date) = []
             \<longrightarrow> temp r = NaN)
          \<and> (\<exists>s1 \<in> set (rows by_date). out_in s1 = out_in r
                \<and> noted_date s1 div ?w * ?w \<le> noted_date r)
          \<and> (\<exists>s2 \<in> set (rows by_date). out_in s2 = out_in r
                \<and> noted_date r \<le> noted_date s2 div ?w * ?w)"
    proof (intro ballI conjI impI)
      fix r
      assume "r \<in> set (rows ?out)"
      then obtain l where "r \<in> set (?part l)"
        unfolding rows by blast
      note lab = located_row_label [OF this]
      show "\<exists>s1 \<in> set (rows by_date). out_in s1 = out_in r
                \<and> noted_date s1 div ?w * ?w \<le> noted_date r"
        by (rule lab(3))
      show "\<exists>s2 \<in> set (rows by_date). out_in s2 = out_in r
                \<and> noted_date r \<le> noted_date s2 div ?w * ?w"
        by (rule lab(4))
      assume e: "filter (\<lambda>s. out_in s = out_in r \<and> noted_date s div ?w * ?w = noted_date r)
                  (rows by_date) = []"
      show "temp r = NaN"
        using lab(2) unfolding e by (simp only: list.map series_mean_Nil)
    qed
    have b: "\<forall>s1 \<in> set (rows by_date). \<forall>s2 \<in> set (rows by_date). \<forall>b.
          (out_in s1 = out_in s2 \<and> (out_in s1 = ''In'' \<or> out_in s1 = ''Out''))
          \<and> noted_date s1 div ?w \<le> b \<and> b \<le> noted_date s2 div ?w
          \<longrightarrow> (\<exists>r \<in> set (rows ?out). noted_date r = b * ?w \<and> out_in r = out_in s1)"
    proof (intro ballI allI impI)
      fix s1 s2 b
      assume s: "s1 \<in> set (rows by_date)" "s2 \<in> set (rows by_date)"
      assume h: "(out_in s1 = out_in s2 \<and> (out_in s1 = ''In'' \<or> out_in s1 = ''Out''))
          \<and> noted_date s1 div ?w \<le> b \<and> b \<le> noted_date s2 div ?w"
      let ?l = "out_in s1"
      have l: "out_in s1 = out_in s2" "out_in s1 = ''In'' \<or> out_in s1 = ''Out''"
        and bb: "noted_date s1 div ?w \<le> b" "b \<le> noted_date s2 div ?w"
        using h by blast+
      have "s1 \<in> set (loc_rows ?l (rows by_date))" "s2 \<in> set (loc_rows ?l (rows by_date))"
        using s l(1) by (simp_all add: loc_rows_mem)
      from resampled_bin_has_row [OF this bb, of ?l]
      obtain r where r: "r \<in> set (?part ?l)" "noted_date r = b * ?w" "out_in r = ?l"
        by blast
      have "r \<in> set (rows ?out)"
        using r(1) l(2) unfolding rows by auto
      with r show "\<exists>r \<in> set (rows ?out). noted_date r = b * ?w \<and> out_in r = out_in s1"
        by blast
    qed
    show ?thesis
      apply (simp only: True simp_thms)
      apply (rule exI [of _ ?out])
      apply (intro conjI)
        apply (rule out)
       apply (rule a)
      apply (rule b)
      done
  next
    case False
    let ?tag = "str_replace '' Only'' [] location_filter"
    let ?out = "tagged ?tag (resample_mean f (?series (rows by_date)))"
    have out: "apply_view data location_filter date_range resample = Inr ?out"
      unfolding view
      using resample_step_single [OF assms(1) _ _ False, of by_date] assms(2,3) cd by simp
    have a: "\<forall>r \<in> set (rows ?out).
          (filter (\<lambda>s. noted_date s div ?w * ?w = noted_date r) (rows by_date) = []
             \<longrightarrow> temp r = NaN)
          \<and> (\<exists>s1 \<in> set (rows by_date). noted_date s1 div ?w * ?w \<le> noted_date r)
          \<and> (\<exists>s2 \<in> set (rows by_date). noted_date r \<le> noted_date s2 div ?w * ?w)"
    proof (intro ballI conjI impI)
      fix r
      assume "r \<in> set (rows ?out)"
      note lab = resampled_row_label [OF this]
      show "\<exists>s1 \<in> set (rows by_date). noted_date s1 div ?w * ?w \<le> noted_date r"
        by (rule lab(3))
      show "\<exists>s2 \<in> set (rows by_date). noted_date r \<le> noted_date s2 div ?w * ?w"
        by (rule lab(4))
      assume e: "filter (\<lambda>s. noted_date s div ?w * ?w = noted_date r) (rows by_date) = []"
      show "temp r = NaN"
        using lab(2) unfolding e by (simp only: list.map series_mean_Nil)
    qed
    have b: "\<forall>s1 \<in> set (rows by_date). \<forall>s2 \<in> set (rows by_date). \<forall>b.
          noted_date s1 div ?w \<le> b \<and> b \<le> noted_date s2 div ?w
          \<longrightarrow> (\<exists>r \<in> set (rows ?out). noted_date r = b * ?w)"
    proof (intro ballI allI impI)
      fix s1 s2 b
      assume s: "s1 \<in> set (rows by_date)" "s2 \<in> set (rows by_date)"
      assume h: "noted_date s1 div ?w \<le> b \<and> b \<le> noted_date s2 div ?w"
      then have bb: "noted_date s1 div ?w \<le> b" "b \<le> noted_date s2 div ?w"
        by simp_all
      from resampled_bin_has_row [OF s bb, of ?tag]
      show "\<exists>r \<in> set (rows ?out). noted_date r = b * ?w"
        by blast
    qed
    show ?thesis
      apply (simp only: False simp_thms)
      apply (rule exI [of _ ?out])
      apply (intro conjI)
        apply (rule out)
       apply (rule a)
      apply (rule b)
      done
  qed
qed

theorem resample_empty_bin_is_missing_witness:
  "\<exists>out. apply_view
       \<lparr>columns = [''noted_date'', ''temp'', ''out/in''],
        rows = [\<lparr>noted_date = 1609459200000000000, temp = Num 10, out_in = ''In''\<rparr>,
                \<lparr>noted_date = 1609466400000000000, temp = Num 20, out_in = ''In''\<rparr>]\<rparr>
       ''Indoor Only'' [18628] ''Hourly Average'' = Inr out
     \<and> (\<exists>r \<in> set (rows out). noted_date r = 1609462800000000000 \<and> temp r = NaN)"
proof -
  let ?data = "\<lparr>columns = [''noted_date'', ''temp'', ''out/in''],
        rows = [\<lparr>noted_date = 1609459200000000000, temp = Num 10, out_in = ''In''\<rparr>,
                \<lparr>noted_date = 1609466400000000000, temp = Num 20, out_in = ''In''\<rparr>]\<rparr>"
  let ?s1 = "\<lparr>noted_date = 1609459200000000000, temp = Num 10, out_in = ''In''\<rparr>"
  let ?s2 = "\<lparr>noted_date = 1609466400000000000, temp = Num 20, out_in = ''In''\<rparr>"
  have 1: "resample_options ''Hourly Average'' = Some (Some H)"
    by (simp add: resample_options_def)
  have 2: "''noted_date'' \<in> set (columns ?data)" by simp
  have 3: "''temp'' \<in> set (columns ?data)" by simp
  have 4: "''out/in'' \<in> set (columns ?data)" by simp
  have 5: "location_step ''Indoor Only'' ?data = Inr ?data"
    by (simp add: location_step_def select_loc_def loc_rows_def)
  have 6: "date_step [18628] ?data = Inr ?data"
    by (simp add: date_step_def)
  from resample_empty_bin_is_missing [OF 1 2 3 4 5 6]
  obtain out where out: "apply_view ?data ''Indoor Only'' [18628] ''Hourly Average'' = Inr out"
    and a: "\<forall>r \<in> set (rows out).
          (filter (\<lambda>s. (''Indoor Only'' = ''All'' \<longrightarrow> out_in s = out_in r)
                      \<and> noted_date s div freq_ns H * freq_ns H = noted_date r)
                  (rows ?data) = []
             \<longrightarrow> temp r = NaN)"
    and b: "\<forall>s1 \<in> set (rows ?data). \<forall>s2 \<in> set (rows ?data). \<forall>b.
          (''Indoor Only'' = ''All'' \<longrightarrow>
             out_in s1 = out_in s2 \<and> (out_in s1 = ''In'' \<or> out_in s1 = ''Out''))
          \<and> noted_date s1 div freq_ns H \<le> b \<and> b \<le> noted_date s2 div freq_ns H
          \<longrightarrow> (\<exists>r \<in> set (rows out). noted_date r = b * freq_ns H
                 \<and> (''Indoor Only'' = ''All'' \<longrightarrow> out_in r = out_in s1))"
    by blast
  have "\<exists>r \<in> set (rows out). noted_date r = 447073 * freq_ns H
                 \<and> (''Indoor Only'' = ''All'' \<longrightarrow> out_in r = out_in ?s1)"
    using b [rule_format, of ?s1 ?s2 447073] by (simp add: ns_per_hour_def)
  then obtain r where r: "r \<in> set (rows out)" "noted_date r = 1609462800000000000"
    by (auto simp: ns_per_hour_def)
  have "temp r = NaN"
    using a [rule_format, OF r(1)] r(2) by (simp add: ns_per_hour_def)
  with out r show ?thesis by blast
qed

lemma date_step_mem:
  assumes "date_step date_range df = Inr by_date"
  shows "r \<in> set (rows by_date) \<longleftrightarrow>
           r \<in> set (rows df) \<and> (\<forall>s e. date_range = [s, e] \<longrightarrow> in_range s e r)"
  unfolding date_step_rows [OF assms]
  by (auto split: list.splits)

lemma date_step_filter:
  assumes "date_step date_range df = Inr by_date"
  shows "date_step date_range (df\<lparr>rows := filter P (rows df)\<rparr>)
           = Inr (by_date\<lparr>rows := filter P (rows by_date)\<rparr>)"
  using assms
  by (auto simp: date_step_def conj_commute split: list.splits if_splits)

lemma location_step_Indoor:
  assumes "''out/in'' \<in> set (columns data)"
  shows "location_step ''Indoor Only'' data = Inr (data\<lparr>rows := loc_rows ''In'' (rows data)\<rparr>)"
  using assms by (simp add: location_step_def select_loc_def)

lemma location_step_Outdoor:
  assumes "''out/in'' \<in> set (columns data)"
  shows "location_step ''Outdoor Only'' data = Inr (data\<lparr>rows := loc_rows ''Out'' (rows data)\<rparr>)"
  using assms by (simp add: location_step_def select_loc_def)

text \<open>
  Claim C9 says that under \<^verbatim>\<open>"Indoor Only"\<close> the resampled rows carry \<^verbatim>\<open>"In"\<close> in the
  location column. They carry \<^verbatim>\<open>"Indoor"\<close>: the tag is the name of the filter without
  its suffix \<^verbatim>\<open>" Only"\<close>.
\<close>

theorem single_location_tag_counterexample:
  "apply_view
     \<lparr>columns = [''noted_date'', ''temp'', ''out/in''],
      rows = [\<lparr>noted_date = 1609459200000000000, temp = Num 10, out_in = ''In''\<rparr>,
              \<lparr>noted_date = 1609460100000000000, temp = Num 5, out_in = ''Out''\<rparr>]\<rparr>
     ''Indoor Only'' [18628] ''Hourly Average''
   = Inr \<lparr>columns = [''noted_date'', ''temp'', ''out/in''],
      rows = [\<lparr>noted_date = 1609459200000000000, temp = Num 10, out_in = ''Indoor''\<rparr>]\<rparr>"
  by (simp add: view_defs str_replace.simps)

text \<open>
  Claim C9, amended. With the location filter \<^verbatim>\<open>"Indoor Only"\<close> or \<^verbatim>\<open>"Outdoor Only"\<close> and
  a resampling option chosen, the view resamples the one series that the location filter
  and the date filter left (rows of \<^verbatim>\<open>"In"\<close>, respectively \<^verbatim>\<open>"Out"\<close>, only), and every row
  of the output carries \<^verbatim>\<open>"Indoor"\<close>, respectively \<^verbatim>\<open>"Outdoor"\<close>, in the location column.
\<close>

theorem single_location_resample_tag:
  assumes "resample_options resample = Some (Some f)"
    and "''noted_date'' \<in> set (columns data)"
    and "''temp'' \<in> set (columns data)"
    and "''out/in'' \<in> set (columns data)"
    and "location_filter = ''Indoor Only'' \<and> loc = ''In'' \<and> tag = ''Indoor''
         \<or> location_filter = ''Outdoor Only'' \<and> loc = ''Out'' \<and> tag = ''Outdoor''"
    and "date_step date_range (data\<lparr>rows := loc_rows loc (rows data)\<rparr>) = Inr by_date"
  shows "\<exists>out. apply_view data location_filter date_range resample = Inr out
     \<and> (\<forall>s \<in> set (rows by_date). s \<in> set (rows data) \<and> out_in s = loc)
     \<and> rows out = rows (tagged tag (resample_mean f
                       (map (\<lambda>r. (noted_date r, temp r)) (rows by_date))))
     \<and> (\<forall>r \<in> set (rows out).
          out_in r = tag
          \<and> temp r = series_mean (map temp
              (filter (\<lambda>s. noted_date s div freq_ns f * freq_ns f = noted_date r)
                 (rows by_date))))"
proof -
  let ?by_location = "data\<lparr>rows := loc_rows loc (rows data)\<rparr>"
  let ?out = "tagged tag (resample_mean f (map (\<lambda>r. (noted_date r, temp r)) (rows by_date)))"
  have loc: "location_step location_filter data = Inr ?by_location"
    using assms(5) location_step_Indoor [OF assms(4)] location_step_Outdoor [OF assms(4)]
    by auto
  have tag: "str_replace '' Only'' [] location_filter = tag"
    using assms(5) str_replace_Indoor str_replace_Outdoor by auto
  have ne: "location_filter \<noteq> ''All''"
    using assms(5) by auto
  have cd: "columns by_date = columns data"
    using date_step_columns [OF assms(6)] by simp
  have "resample_step location_filter resample by_date = Inr ?out"
    using resample_step_single [OF assms(1) _ _ ne, of by_date] assms(2,3) cd tag by simp
  then have out: "apply_view data location_filter date_range resample = Inr ?out"
    using apply_view_steps [OF loc assms(6)] by simp
  have src: "\<forall>s \<in> set (rows by_date). s \<in> set (rows data) \<and> out_in s = loc"
    using date_step_mem [OF assms(6)] by (simp add: loc_rows_mem)
  have row: "\<forall>r \<in> set (rows ?out).
          out_in r = tag
          \<and> temp r = series_mean (map temp
              (filter (\<lambda>s. noted_date s div freq_ns f * freq_ns f = noted_date r)
                 (rows by_date)))"
  proof (intro ballI conjI)
    fix r
    assume "r \<in> set (rows ?out)"
    note lab = resampled_row_label [OF this]
    show "out_in r = tag" by (rule lab(1))
    show "temp r = series_mean (map temp
              (filter (\<lambda>s. noted_date s div freq_ns f * freq_ns f = noted_date r)
                 (rows by_date)))"
      by (rule lab(2))
  qed
  show ?thesis
    apply (rule exI [of _ ?out])
    apply (intro conjI)
       apply (rule out)
      apply (rule src)
     apply (rule refl)
    apply (rule row)
    done
qed

theorem single_location_resample_tag_witness:
  "apply_view
     \<lparr>columns = [''noted_date'', ''temp'', ''out/in''],
      rows = [\<lparr>noted_date = 1609459200000000000, temp = Num 10, out_in = ''In''\<rparr>,
              \<lparr>noted_date = 1609460100000000000, temp = Num 5, out_in = ''Out''\<rparr>,
              \<lparr>noted_date = 1609488000000000000, temp = Num 7, out_in = ''Out''\<rparr>]\<rparr>
     ''Outdoor Only'' [18628] ''Daily Average''
   = Inr \<lparr>columns = [''noted_date'', ''temp'', ''out/in''],
      rows = [\<lparr>noted_date = 1609459200000000000, temp = Num 6, out_in = ''Outdoor''\<rparr>]\<rparr>"
proof -
  let ?data = "\<lparr>columns = [''noted_date'', ''temp'', ''out/in''],
      rows = [\<lparr>noted_date = 1609459200000000000, temp = Num 10, out_in = ''In''\<rparr>,
              \<lparr>noted_date = 1609460100000000000, temp = Num 5, out_in = ''Out''\<rparr>,
              \<lparr>noted_date = 1609488000000000000, temp = Num 7, out_in = ''Out''\<rparr>]\<rparr>"
  let ?by_date = "\<lparr>columns = [''noted_date'', ''temp'', ''out/in''],
      rows = [\<lparr>noted_date = 1609460100000000000, temp = Num 5, out_in = ''Out''\<rparr>,
              \<lparr>noted_date = 1609488000000000000, temp = Num 7, out_in = ''Out''\<rparr>]\<rparr>"
  have 1: "resample_options ''Daily Average'' = Some (Some D)"
    by (simp add: resample_options_def)
  have 2: "''noted_date'' \<in> set (columns ?data)" by simp
  have 3: "''temp'' \<in> set (columns ?data)" by simp
  have 4: "''out/in'' \<in> set (columns ?data)" by simp
  have 5: "''Outdoor Only'' = ''Indoor Only'' \<and> ''Out'' = ''In'' \<and> ''Outdoor'' = ''Indoor''
         \<or> ''Outdoor Only'' = ''Outdoor Only'' \<and> ''Out'' = ''Out'' \<and> ''Outdoor'' = ''Outdoor''"
    by simp
  have 6: "date_step [18628] (?data\<lparr>rows := loc_rows ''Out'' (rows ?data)\<rparr>) = Inr ?by_date"
    by (simp add: date_step_def loc_rows_def)
  from single_location_resample_tag [OF 1 2 3 4 5 6]
  obtain out where out: "apply_view ?data ''Outdoor Only'' [18628] ''Daily Average'' = Inr out"
    and rows: "rows out = rows (tagged ''Outdoor'' (resample_mean D
                       (map (\<lambda>r. (noted_date r, temp r)) (rows ?by_date))))"
    by blast
  have c: "columns out = [''noted_date'', ''temp'', ''out/in'']"
    using out by (simp add: view_defs str_replace.simps) auto
  have "rows out = [\<lparr>noted_date = 1609459200000000000, temp = Num 6, out_in = ''Outdoor''\<rparr>]"
    unfolding rows
    by (simp add: tagged_def resample_mean_def bin_values_def series_mean_def ns_per_day_def)
  with c have "out = \<lparr>columns = [''noted_date'', ''temp'', ''out/in''],
      rows = [\<lparr>noted_date = 1609459200000000000, temp = Num 6, out_in = ''Outdoor''\<rparr>]\<rparr>"
    by (cases out) simp
  with out show ?thesis by simp
qed

lemma loc_rows_known:
  assumes "l = ''In'' \<or> l = ''Out''"
  shows "loc_rows l (filter (\<lambda>r. out_in r = ''In'' \<or> out_in r = ''Out'') rs) = loc_rows l rs"
  using assms by (auto simp: loc_rows_def intro: filter_cong)

text \<open>
  Claim C10. Rows whose location is neither \<^verbatim>\<open>"In"\<close> nor \<^verbatim>\<open>"Out"\<close>, under the location
  filter \<^verbatim>\<open>"All"\<close>. Without resampling the output is the frame after the date filter, so
  such a row is kept whenever the date filter keeps it (always, when the date range is not
  a pair). With a resampling option chosen, every row of the output is tagged \<^verbatim>\<open>"In"\<close> or
  \<^verbatim>\<open>"Out"\<close>, and the output is the one the view gives for the data without those rows:
  they are dropped, and contribute to no average.
\<close>

theorem all_filter_other_locations:
  assumes "''noted_date'' \<in> set (columns data)"
    and "''temp'' \<in> set (columns data)"
    and "''out/in'' \<in> set (columns data)"
    and "date_step date_range data = Inr by_date"
  shows "apply_view data ''All'' date_range ''None'' = Inr by_date
     \<and> (\<forall>r \<in> set (rows data).
          out_in r \<noteq> ''In'' \<and> out_in r \<noteq> ''Out''
          \<and> (\<forall>s e. date_range = [s, e] \<longrightarrow> in_range s e r)
          \<longrightarrow> r \<in> set (rows by_date))
     \<and> (\<forall>resample f. resample_options resample = Some (Some f) \<longrightarrow>
          (\<exists>out. apply_view data ''All'' date_range resample = Inr out
             \<and> (\<forall>r \<in> set (rows out). out_in r = ''In'' \<or> out_in r = ''Out'')
             \<and> apply_view
                 (data\<lparr>rows := filter (\<lambda>r. out_in r = ''In'' \<or> out_in r = ''Out'') (rows data)\<rparr>)
                 ''All'' date_range resample = Inr out))"
proof (intro conjI ballI allI impI)
  show "apply_view data ''All'' date_range ''None'' = Inr by_date"
    unfolding apply_view_All [OF assms(4)] by (rule resample_step_None)
next
  fix r
  assume "r \<in> set (rows data)"
    and "out_in r \<noteq> ''In'' \<and> out_in r \<noteq> ''Out''
          \<and> (\<forall>s e. date_range = [s, e] \<longrightarrow> in_range s e r)"
  then show "r \<in> set (rows by_date)"
    using date_step_mem [OF assms(4), of r] by simp
next
  fix resample f
  assume ro: "resample_options resample = Some (Some f)"
  let ?known = "\<lambda>r. out_in r = ''In'' \<or> out_in r = ''Out''"
  let ?data' = "data\<lparr>rows := filter ?known (rows data)\<rparr>"
  let ?by_date' = "by_date\<lparr>rows := filter ?known (rows by_date)\<rparr>"
  let ?series = "\<lambda>rs. map (\<lambda>r. (noted_date r, temp r)) rs"
  let ?out = "concat_frames
       (tagged ''In'' (resample_mean f (?series (loc_rows ''In'' (rows by_date)))))
       (tagged ''Out'' (resample_mean f (?series (loc_rows ''Out'' (rows by_date)))))"
  have out: "apply_view data ''All'' date_range resample = Inr ?out"
    using apply_view_All_resample [OF ro assms] .
  have tags: "\<forall>r \<in> set (rows ?out). out_in r = ''In'' \<or> out_in r = ''Out''"
    by (auto simp: concat_frames_rows tagged_rows_mem)
  have d': "date_step date_range ?data' = Inr ?by_date'"
    using date_step_filter [OF assms(4)] .
  have "apply_view ?data' ''All'' date_range resample =
     Inr (concat_frames
       (tagged ''In'' (resample_mean f (?series (loc_rows ''In'' (rows ?by_date')))))
       (tagged ''Out'' (resample_mean f (?series (loc_rows ''Out'' (rows ?by_date'))))))"
    using apply_view_All_resample [OF ro _ _ _ d'] assms(1-3) by simp
  then have out': "apply_view ?data' ''All'' date_range resample = Inr ?out"
    by (simp add: loc_rows_known)
  show "\<exists>out. apply_view data ''All'' date_range resample = Inr out
             \<and> (\<forall>r \<in> set (rows out). out_in r = ''In'' \<or> out_in r = ''Out'')
             \<and> apply_view ?data' ''All'' date_range resample = Inr out"
    apply (rule exI [of _ ?out])
    apply (intro conjI)
      apply (rule out)
     apply (rule tags)
    apply (rule out')
    done
qed

theorem all_filter_other_locations_witness:
  "apply_view
     \<lparr>columns = [''noted_date'', ''temp'', ''out/in''],
      rows = [\<lparr>noted_date = 1609459200000000000, temp = Num 10, out_in = ''In''\<rparr>,
              \<lparr>noted_date = 1609460100000000000, temp = Num 30, out_in = ''Garage''\<rparr>]\<rparr>
     ''All'' [18628] ''None''
   = Inr \<lparr>columns = [''noted_date'', ''temp'', ''out/in''],
      rows = [\<lparr>noted_date = 1609459200000000000, temp = Num 10, out_in = ''In''\<rparr>,
              \<lparr>noted_date = 1609460100000000000, temp = Num 30, out_in = ''Garage''\<rparr>]\<rparr>
   \<and> apply_view
     \<lparr>columns = [''noted_date'', ''temp'', ''out/in''],
      rows = [\<lparr>noted_date = 1609459200000000000, temp = Num 10, out_in = ''In''\<rparr>,
              \<lparr>noted_date = 1609460100000000000, temp = Num 30, out_in = ''Garage''\<rparr>]\<rparr>
     ''All'' [18628] ''Hourly Average''
   = Inr \<lparr>columns = [''noted_date'', ''temp'', ''out/in''],
      rows = [\<lparr>noted_date = 1609459200000000000, temp = Num 10, out_in = ''In''\<rparr>]\<rparr>"
proof -
  let ?data = "\<lparr>columns = [''noted_date'', ''temp'', ''out/in''],
      rows = [\<lparr>noted_date = 1609459200000000000, temp = Num 10, out_in = ''In''\<rparr>,
              \<lparr>noted_date = 1609460100000000000, temp = Num 30, out_in = ''Garage''\<rparr>]\<rparr>"
  let ?known = "\<lparr>columns = [''noted_date'', ''temp'', ''out/in''],
      rows = [\<lparr>noted_date = 1609459200000000000, temp = Num 10, out_in = ''In''\<rparr>]\<rparr>"
  have 1: "''noted_date'' \<in> set (columns ?data)" by simp
  have 2: "''temp'' \<in> set (columns ?data)" by simp
  have 3: "''out/in'' \<in> set (columns ?data)" by simp
  have 4: "date_step [18628] ?data = Inr ?data"
    by (simp add: date_step_def)
  have 5: "resample_options ''Hourly Average'' = Some (Some H)"
    by (simp add: resample_options_def)
  note w = all_filter_other_locations [OF 1 2 3 4]
  from w have a: "apply_view ?data ''All'' [18628] ''None'' = Inr ?data"
    by blast
  from w 5 obtain out where out: "apply_view ?data ''All'' [18628] ''Hourly Average'' = Inr out"
    and same: "apply_view
                 (?data\<lparr>rows := filter (\<lambda>r. out_in r = ''In'' \<or> out_in r = ''Out'') (rows ?data)\<rparr>)
                 ''All'' [18628] ''Hourly Average'' = Inr out"
    by blast
  have "apply_view ?known ''All'' [18628] ''Hourly Average'' = Inr ?known"
    by (simp add: view_defs)
  with same have "out = ?known"
    by simp
  with a out show ?thesis by simp
qed

text \<open>
  Claim C2 says that the date range is inclusive at both ends, so that the range from
  2021-01-02 to 2021-01-02 keeps a reading of 2021-01-02 23:59. The comparison is against
  the full timestamp and inclusive, but the end of the range is the midnight that begins
  the end date: the reading is dropped and the view is empty. The days are counted from
  the epoch: 2021-01-02 is day 18629.
\<close>

theorem end_date_drops_later_readings:
  "apply_view
     \<lparr>columns = [''noted_date'', ''temp'', ''out/in''],
      rows = [\<lparr>noted_date = 1609631940000000000, temp = Num 20, out_in = ''In''\<rparr>]\<rparr>
     ''All'' [18629, 18629] ''None''
   = Inr \<lparr>columns = [''noted_date'', ''temp'', ''out/in''], rows = []\<rparr>"
  by (simp add: view_defs)

text \<open>
  Claim C4 says that the view with the filter \<^verbatim>\<open>"All"\<close>, the full date range and no
  resampling returns the data unchanged. For readings of 2021-01-01 08:00 and
  2021-01-02 12:00 the full range, which is the default of the date widget, is the pair of
  the days 18628 and 18629, and the view drops the second reading: it is later than the
  midnight that begins the last day.
\<close>

theorem default_range_is_not_identity:
  "default_date_range
     [\<lparr>noted_date = 1609488000000000000, temp = Num 18, out_in = ''In''\<rparr>,
      \<lparr>noted_date = 1609588800000000000, temp = Num 3, out_in = ''Out''\<rparr>]
   = Some [18628, 18629]
   \<and> apply_view
     \<lparr>columns = [''noted_date'', ''temp'', ''out/in''],
      rows = [\<lparr>noted_date = 1609488000000000000, temp = Num 18, out_in = ''In''\<rparr>,
              \<lparr>noted_date = 1609588800000000000, temp = Num 3, out_in = ''Out''\<rparr>]\<rparr>
     ''All'' [18628, 18629] ''None''
   = Inr \<lparr>columns = [''noted_date'', ''temp'', ''out/in''],
      rows = [\<lparr>noted_date = 1609488000000000000, temp = Num 18, out_in = ''In''\<rparr>]\<rparr>"
  by (simp add: view_defs default_date_range_def date_def)

end
